theory Spec2Isabelle
  imports Main
begin

section \<open>The installer programs of the repository\<close>

text \<open>
  The repository holds several \<^verbatim>\<open>main\<close> programs of one shape. Two of them are embedded
  here: the fixed-device installer of \<^verbatim>\<open>src/main.go\<close> (\<open>main_op5\<close>) and the table-driven
  multi-profile installer in \<^verbatim>\<open>src/remote/nh.go\<close>, lines 578-943 (\<open>main_multi\<close>).

  A program is a function from an environment to the outcome of the process and the
  trace of the external calls it made, in order. The environment answers every call; its
  answer may depend on the moment of the call, which is the number of calls made before
  it. Console output (\<^verbatim>\<open>iEcho\<close>, \<^verbatim>\<open>eEcho\<close>, \<^verbatim>\<open>fmt.Print\<close>) and the pause that \<^verbatim>\<open>exit\<close> makes on
  Windows before \<^verbatim>\<open>os.Exit\<close> are not traced: they reach neither the device nor the
  file system.
\<close>

subsection \<open>Exit codes (main.go, lines 34-53)\<close>

definition SuccessBase :: int where "SuccessBase = push_bit 5 1 + 0"
definition SuccessUserAbort :: int where "SuccessUserAbort = push_bit 5 1 + 1"
definition SuccessBootloaderUnlocked :: int where "SuccessBootloaderUnlocked = push_bit 5 1 + 2"
definition Success :: int where "Success = 0"

definition ErrorBase :: int where "ErrorBase = push_bit 6 1 + 0"
definition ErrorPrereqs :: int where "ErrorPrereqs = push_bit 6 1 + 1"
definition ErrorUserInput :: int where "ErrorUserInput = push_bit 6 1 + 2"
definition ErrorUsbPerms :: int where "ErrorUsbPerms = push_bit 6 1 + 3"
definition ErrorAdb :: int where "ErrorAdb = push_bit 6 1 + 4"
definition ErrorFastboot :: int where "ErrorFastboot = push_bit 6 1 + 5"
definition ErrorRemote :: int where "ErrorRemote = push_bit 6 1 + 6"
definition ErrorTWRP :: int where "ErrorTWRP = push_bit 6 1 + 7"

lemmas exit_code_defs =
  SuccessBase_def SuccessUserAbort_def SuccessBootloaderUnlocked_def Success_def
  ErrorBase_def ErrorPrereqs_def ErrorUserInput_def ErrorUsbPerms_def ErrorAdb_def
  ErrorFastboot_def ErrorRemote_def ErrorTWRP_def

subsection \<open>Calls, environment, runs\<close>

type_synonym error = string

text \<open>
  Modelled from the spec: package \<^verbatim>\<open>android\<close> is imported by the programs but is not among
  the sources. The programs name \<^verbatim>\<open>android.NoDeviceFound\<close>, \<^verbatim>\<open>android.DeviceUnauthorized\<close> and
  \<^verbatim>\<open>android.NoUsbPerms\<close>; the spec's DeviceStatus has a fourth value, "device found and
  ready".
\<close>

datatype DeviceStatus = NoDeviceFound | DeviceUnauthorized | NoUsbPerms | DeviceFound

datatype call =
    ReadLine
  | WaitEnter
  | Sleep int
  | Stat string
  | DownloadURL string
  | Menu string "string list"
  | AdbStatus
  | AdbReboot string
  | AdbPushFg string string
  | AdbShell string
  | AdbSideload string
  | FbStatus
  | FbGetProduct
  | FbUnlocked
  | FbUnlock
  | FbReboot
  | FbFlashRecovery string
  | FbBoot string

text \<open>An event is a call together with whether it came back with an error.\<close>

type_synonym event = "call \<times> bool"

datatype outcome = Exit int | Panic error

text \<open>
  A Go call returning \<^verbatim>\<open>(value, error)\<close> is answered by a pair: the programs read the value
  of a status and of the lock state also when the error is set or thrown away.
  \<open>op_err\<close> answers the calls that return an error only.
  Modelled from the spec: \<^verbatim>\<open>remote.DownloadURL\<close> is not among the sources; the spec's
  artifact retrieval collaborator is \<^verbatim>\<open>fetch(url, destinationPath) -> fails with a transfer
  error\<close>. \<open>download_fails\<close> says whether the transfer failed; the call returns to the
  program in both cases, and the programs use no result of it.
\<close>

record env =
  version_flag :: bool
  executable_err :: "error option"
  setenv_err :: "error option"
  stdin_line :: "nat \<Rightarrow> string \<times> error option"
  stat_missing :: "nat \<Rightarrow> string \<Rightarrow> bool"
  download_fails :: "nat \<Rightarrow> string \<Rightarrow> bool"
  menu_pick :: "nat \<Rightarrow> error + nat"
  adb_status :: "nat \<Rightarrow> DeviceStatus \<times> error option"
  fb_status :: "nat \<Rightarrow> DeviceStatus \<times> error option"
  fb_product :: "nat \<Rightarrow> string \<times> error option"
  fb_unlocked :: "nat \<Rightarrow> bool \<times> error option"
  op_err :: "nat \<Rightarrow> call \<Rightarrow> error option"

type_synonym run = "event list \<Rightarrow> outcome \<times> event list"

definition exit :: "int \<Rightarrow> run" where
  "exit code tr = (Exit code, tr)"

definition panic :: "error \<Rightarrow> run" where
  "panic e tr = (Panic e, tr)"

text \<open>
  \<open>ask c answer failed k\<close> issues the call \<open>c\<close> at the moment \<open>length tr\<close>, records it
  with its failure flag and hands the answer to the rest of the program.
\<close>

definition ask :: "call \<Rightarrow> (nat \<Rightarrow> 'r) \<Rightarrow> ('r \<Rightarrow> bool) \<Rightarrow> ('r \<Rightarrow> run) \<Rightarrow> run" where
  "ask c answer failed k tr = (let r = answer (length tr) in k r (tr @ [(c, failed r)]))"

definition reader_ReadLine :: "env \<Rightarrow> (string \<Rightarrow> error option \<Rightarrow> run) \<Rightarrow> run" where
  "reader_ReadLine env k = ask ReadLine (stdin_line env) (\<lambda>r. snd r \<noteq> None) (\<lambda>r. k (fst r) (snd r))"

definition adb_Status :: "env \<Rightarrow> (DeviceStatus \<Rightarrow> error option \<Rightarrow> run) \<Rightarrow> run" where
  "adb_Status env k = ask AdbStatus (adb_status env) (\<lambda>r. snd r \<noteq> None) (\<lambda>r. k (fst r) (snd r))"

definition fastboot_Status :: "env \<Rightarrow> (DeviceStatus \<Rightarrow> error option \<Rightarrow> run) \<Rightarrow> run" where
  "fastboot_Status env k = ask FbStatus (fb_status env) (\<lambda>r. snd r \<noteq> None) (\<lambda>r. k (fst r) (snd r))"

definition fastboot_GetProduct :: "env \<Rightarrow> (string \<Rightarrow> error option \<Rightarrow> run) \<Rightarrow> run" where
  "fastboot_GetProduct env k =
     ask FbGetProduct (fb_product env) (\<lambda>r. snd r \<noteq> None) (\<lambda>r. k (fst r) (snd r))"

definition fastboot_Unlocked :: "env \<Rightarrow> (bool \<Rightarrow> error option \<Rightarrow> run) \<Rightarrow> run" where
  "fastboot_Unlocked env k =
     ask FbUnlocked (fb_unlocked env) (\<lambda>r. snd r \<noteq> None) (\<lambda>r. k (fst r) (snd r))"

text \<open>
  The adb and fastboot operations that return an error only: \<^verbatim>\<open>adb.Reboot\<close>, \<^verbatim>\<open>adb.PushFg\<close>,
  \<^verbatim>\<open>adb.Shell\<close>, \<^verbatim>\<open>adb.Sideload\<close>, \<^verbatim>\<open>fastboot.Unlock\<close>, \<^verbatim>\<open>fastboot.FlashRecovery\<close>,
  \<^verbatim>\<open>fastboot.Boot\<close>.
\<close>

definition perform :: "env \<Rightarrow> call \<Rightarrow> (error option \<Rightarrow> run) \<Rightarrow> run" where
  "perform env c k = ask c (\<lambda>t. op_err env t c) (\<lambda>err. err \<noteq> None) k"

text \<open>
  The idiom of every checked operation:
  \<^verbatim>\<open>err = op(...); if err != nil { eEcho(...); exit(code) }\<close>.
\<close>

definition or_exit :: "env \<Rightarrow> call \<Rightarrow> int \<Rightarrow> run \<Rightarrow> run" where
  "or_exit env c code k = perform env c (\<lambda>err. if err \<noteq> None then exit code else k)"

text \<open>
  \<^verbatim>\<open>fastboot.Reboot()\<close> is called as a statement: nothing it may return is used.
  \<^verbatim>\<open>time.Sleep\<close> and the wait for the Enter key
  (\<^verbatim>\<open>bufio.NewReader(os.Stdin).ReadBytes('\n')\<close>, \<^verbatim>\<open>waitForOpKey\<close>) return nothing the
  programs use either.
\<close>

definition silent :: "call \<Rightarrow> run \<Rightarrow> run" where
  "silent c k = ask c (\<lambda>t. ()) (\<lambda>u. False) (\<lambda>u. k)"

definition fastboot_Reboot :: "run \<Rightarrow> run" where
  "fastboot_Reboot k = silent FbReboot k"

definition time_Sleep :: "int \<Rightarrow> run \<Rightarrow> run" where
  "time_Sleep ms k = silent (Sleep ms) k"

definition waitForOpKey :: "run \<Rightarrow> run" where
  "waitForOpKey k = silent WaitEnter k"

text \<open>\<^verbatim>\<open>_, err := os.Stat(file); os.IsNotExist(err)\<close>\<close>

definition os_Stat :: "env \<Rightarrow> string \<Rightarrow> (bool \<Rightarrow> run) \<Rightarrow> run" where
  "os_Stat env file k = ask (Stat file) (\<lambda>t. stat_missing env t file) (\<lambda>missing. missing) k"

definition remote_DownloadURL :: "env \<Rightarrow> string \<Rightarrow> run \<Rightarrow> run" where
  "remote_DownloadURL env url k =
     ask (DownloadURL url) (\<lambda>t. download_fails env t url) (\<lambda>failed. failed) (\<lambda>failed. k)"

subsection \<open>Shared helpers (main.go, lines 68-96)\<close>

definition verifyAdbStatusOrAbort :: "env \<Rightarrow> run \<Rightarrow> run" where
  "verifyAdbStatusOrAbort env k =
     adb_Status env (\<lambda>status err.
       if err \<noteq> None then exit ErrorAdb
       else if status = NoDeviceFound \<or> status = DeviceUnauthorized then exit ErrorAdb
       else if status = NoUsbPerms then exit ErrorUsbPerms
       else k)"

definition verifyFastbootStatusOrAbort :: "env \<Rightarrow> run \<Rightarrow> run" where
  "verifyFastbootStatusOrAbort env k =
     fastboot_Status env (\<lambda>status err.
       if err \<noteq> None then exit ErrorFastboot
       else if status = NoDeviceFound then exit ErrorFastboot
       else if status = NoUsbPerms then exit ErrorUsbPerms
       else k)"

text \<open>
  "Checking USB permissions..." (main.go, lines 189-209 and again 309-329; nh.go, lines
  653-673): the status is read with its error thrown away (\<^verbatim>\<open>status, _ := fastboot.Status()\<close>);
  when no device is found the device is rebooted into the bootloader, the program sleeps
  7000 ms and polls the bootloader status once more.
\<close>

definition checkUsb :: "env \<Rightarrow> run \<Rightarrow> run" where
  "checkUsb env k =
     fastboot_Status env (\<lambda>status ignored.
       if status = NoDeviceFound then
         verifyAdbStatusOrAbort env (
         or_exit env (AdbReboot ''bootloader'') ErrorAdb (
         time_Sleep 7000 (
         fastboot_Status env (\<lambda>status err.
           if err \<noteq> None \<or> status = NoDeviceFound then exit ErrorAdb else k))))
       else k)"

text \<open>
  The start of \<^verbatim>\<open>main\<close> up to the answer to "Are you ready to install Nethunter?"
  (main.go, lines 133-171; nh.go, lines 593-635).
\<close>

definition startup :: "env \<Rightarrow> run \<Rightarrow> run" where
  "startup env k =
     (if version_flag env then exit Success
      else case executable_err env of
        Some e \<Rightarrow> panic e
      | None \<Rightarrow>
          if setenv_err env \<noteq> None then exit ErrorPrereqs
          else reader_ReadLine env (\<lambda>responseBytes err.
            if err \<noteq> None then exit ErrorUserInput
            else if ''yes'' \<noteq> responseBytes then exit SuccessUserAbort
            else k))"

text \<open>"Verifying installer tools..." (main.go, lines 173-187).\<close>

definition verifyTools :: "env \<Rightarrow> run \<Rightarrow> run" where
  "verifyTools env k =
     adb_Status env (\<lambda>ignored err.
       if err \<noteq> None then exit ErrorPrereqs
       else fastboot_Status env (\<lambda>ignored err.
         if err \<noteq> None then exit ErrorPrereqs else k))"

text \<open>
  The unlock check (main.go, lines 230-244; nh.go, lines 712-727): an error of the lock
  state query is only printed as a warning; the decision is taken on the flag.
\<close>

definition unlockCheck :: "env \<Rightarrow> run \<Rightarrow> run" where
  "unlockCheck env k =
     fastboot_Unlocked env (\<lambda>unlocked err.
       if \<not> unlocked then
         or_exit env FbUnlock ErrorFastboot (
         fastboot_Reboot (
         exit SuccessBootloaderUnlocked))
       else k)"

text \<open>\<^verbatim>\<open>if _, err := os.Stat(file); os.IsNotExist(err) { remote.DownloadURL(url) }\<close>\<close>

definition fetchIfMissing :: "env \<Rightarrow> string \<Rightarrow> string \<Rightarrow> run \<Rightarrow> run" where
  "fetchIfMissing env file url k =
     os_Stat env file (\<lambda>missing. if missing then remote_DownloadURL env url k else k)"

subsection \<open>The fixed-device installer (main.go)\<close>

definition nhzip :: string where
  "nhzip = ''nethunter-oneplus5-oos-nougat-kalifs-full-20170828_192201.zip''"
definition nhzipurl :: string where
  "nhzipurl = ''https://build.nethunter.com/misc/nethunter-oneplus5-oos-nougat-kalifs-full-20170828_192201.zip''"
definition oxygenrecovery :: string where
  "oxygenrecovery = ''OP5_recovery.img''"
definition recoveryimgurl :: string where
  "recoveryimgurl = ''http://oxygenos.oneplus.net.s3.amazonaws.com/OP5_recovery.img''"
definition factory :: string where
  "factory = ''OnePlus5Oxygen_23_OTA_013_all_1708032241_1213265a0ad04ecf.zip''"
definition oxygenurl :: string where
  "oxygenurl = ''http://oxygenos.oneplus.net.s3.amazonaws.com/OnePlus5Oxygen_23_OTA_013_all_1708032241_1213265a0ad04ecf.zip''"
definition twrp :: string where
  "twrp = ''twrp-3.1.1-1-cheeseburger.img''"
definition twrpurl :: string where
  "twrpurl = ''https://dl.twrp.me/cheeseburger/twrp-3.1.1-1-cheeseburger.img''"

text \<open>
  Lines 246-272. The fourth block, "Download TWRP", tests the presence of \<^verbatim>\<open>factory\<close>
  (line 269) and downloads \<^verbatim>\<open>twrpurl\<close>.
\<close>

definition staging_op5 :: "env \<Rightarrow> run \<Rightarrow> run" where
  "staging_op5 env k =
     fetchIfMissing env nhzip nhzipurl (
     fetchIfMissing env oxygenrecovery recoveryimgurl (
     fetchIfMissing env factory oxygenurl (
     fetchIfMissing env factory twrpurl k)))"

text \<open>Lines 274-391.\<close>

definition install_op5 :: "env \<Rightarrow> run" where
  "install_op5 env =
     or_exit env (FbFlashRecovery oxygenrecovery) ErrorTWRP (
     or_exit env (FbBoot oxygenrecovery) ErrorTWRP (
     waitForOpKey (
     or_exit env (AdbSideload factory) ErrorTWRP (
     waitForOpKey (
     checkUsb env (
     or_exit env (FbFlashRecovery twrp) ErrorTWRP (
     or_exit env (FbBoot twrp) ErrorTWRP (
     time_Sleep 30000 (
     or_exit env (AdbPushFg nhzip ''/sdcard'') ErrorAdb (
     or_exit env (AdbShell (''twrp install /sdcard/'' @ nhzip)) ErrorTWRP (
     time_Sleep 2000 (
     or_exit env (AdbShell ''twrp wipe cache'') ErrorTWRP (
     time_Sleep 1000 (
     or_exit env (AdbShell ''twrp wipe dalvik'') ErrorTWRP (
     time_Sleep 1000 (
     or_exit env (AdbShell ''twrp wipe data'') ErrorTWRP (
     time_Sleep 1000 (
     or_exit env (AdbReboot []) ErrorAdb (
     exit Success)))))))))))))))))))"

text \<open>
  Lines 211-228: the product name is read and compared with \<^verbatim>\<open>"QC_Reference_Phone"\<close> only
  to choose a message; the program goes on for every name.
\<close>

definition identify_op5 :: "env \<Rightarrow> run \<Rightarrow> run" where
  "identify_op5 env k =
     verifyFastbootStatusOrAbort env (
     fastboot_GetProduct env (\<lambda>productName err.
       if err \<noteq> None then exit ErrorFastboot else k))"

definition main_op5 :: "env \<Rightarrow> outcome \<times> event list" where
  "main_op5 env =
     startup env (
     verifyTools env (
     checkUsb env (
     identify_op5 env (
     unlockCheck env (
     staging_op5 env (
     install_op5 env)))))) []"

subsection \<open>The multi-profile installer (nh.go, lines 578-943)\<close>

text \<open>
  The fields of a device profile, as \<^verbatim>\<open>main\<close> reads them from \<^verbatim>\<open>currDevice\<close>. The type
  declaration, \<^verbatim>\<open>readDevicesConfig\<close> and \<^verbatim>\<open>findDeviceConfig\<close> are not among the sources:
  the registry \<open>nhDevices\<close> and the lookup \<open>lookup\<close> are parameters of \<open>main_multi\<close>.
\<close>

record Device =
  Common_name :: string
  Product_name :: string
  Extra_file :: string
  Extra_url :: string
  Nhos_file :: string
  Nhos_url :: string
  Nhfs_file :: string
  Nhfs_url :: string
  Gapps_file :: string
  Gapps_url :: string
  Twrp_file :: string
  Twrp_url :: string

definition emptyDevice :: Device where
  "emptyDevice = \<lparr>Common_name = [], Product_name = [], Extra_file = [], Extra_url = [],
     Nhos_file = [], Nhos_url = [], Nhfs_file = [], Nhfs_url = [], Gapps_file = [],
     Gapps_url = [], Twrp_file = [], Twrp_url = []\<rparr>"

text \<open>
  Modelled from the spec: \<^verbatim>\<open>findDeviceConfig\<close> is not among the sources. Spec 4.1:
  \<^verbatim>\<open>resolve(hardwareIdentifier) -> DeviceProfile | not-found\<close>, "matching is exact-string
  against the hardware identifier field". \<^verbatim>\<open>main\<close> takes a profile with an empty
  \<^verbatim>\<open>Common_name\<close> for not-found, so not-found is the empty profile; of several matches the
  first in registry order is returned.
\<close>

fun findDeviceConfig :: "Device list \<Rightarrow> string \<Rightarrow> Device" where
  "findDeviceConfig [] productName = emptyDevice"
| "findDeviceConfig (d # ds) productName =
     (if Product_name d = productName then d else findDeviceConfig ds productName)"

text \<open>
  \<^verbatim>\<open>menu.Run()\<close> of the external menu library: the operator's answer is an error or the
  index of one of the options shown; an index that names no option is an error of the
  menu as well. On an error \<^verbatim>\<open>main\<close> calls \<^verbatim>\<open>log.Fatal\<close>, which exits with code 1.
\<close>

definition menu_Run :: "env \<Rightarrow> string \<Rightarrow> string list \<Rightarrow> (nat \<Rightarrow> run) \<Rightarrow> run" where
  "menu_Run env title options k =
     ask (Menu title options) (menu_pick env)
       (\<lambda>r. case r of Inl e \<Rightarrow> True | Inr i \<Rightarrow> \<not> i < length options)
       (\<lambda>r. case r of
               Inl e \<Rightarrow> exit 1
             | Inr i \<Rightarrow> if i < length options then k i else exit 1)"

definition oneplusOptions :: "string list" where
  "oneplusOptions = [''OnePlus 5'', ''OnePlus 2'', ''OnePlus 1'']"

text \<open>
  Lines 675-708. The menu is shown for the product name \<^verbatim>\<open>"QC_Reference_Phone"\<close> and puts
  the text of the chosen option in \<^verbatim>\<open>productName\<close>; the error of \<^verbatim>\<open>GetProduct\<close> is tested
  after the menu. A profile that is not found ends the run with \<^verbatim>\<open>exit(1)\<close>.
\<close>

definition identify_multi ::
  "(Device list \<Rightarrow> string \<Rightarrow> Device) \<Rightarrow> Device list \<Rightarrow> env \<Rightarrow> (Device \<Rightarrow> run) \<Rightarrow> run" where
  "identify_multi lookup nhDevices env k =
     verifyFastbootStatusOrAbort env (
     fastboot_GetProduct env (\<lambda>productName err.
       let resolve = (\<lambda>productName.
             if err \<noteq> None then exit ErrorFastboot
             else let currDevice = lookup nhDevices productName
                  in if Common_name currDevice \<noteq> [] then k currDevice else exit 1)
       in if productName = ''QC_Reference_Phone'' then
            menu_Run env ''Detected OnePlus device.  Select which device: '' oneplusOptions
              (\<lambda>i. resolve (oneplusOptions ! i))
          else resolve productName))"

text \<open>
  Lines 729-754. The extra file is looked at only when both its name and its URL are set.
\<close>

definition staging_multi :: "env \<Rightarrow> Device \<Rightarrow> run \<Rightarrow> run" where
  "staging_multi env currDevice k =
     (if Extra_file currDevice \<noteq> [] \<and> Extra_url currDevice \<noteq> []
      then fetchIfMissing env (Extra_file currDevice) (Extra_url currDevice)
      else (\<lambda>k. k)) (
     fetchIfMissing env (Nhos_file currDevice) (Nhos_url currDevice) (
     fetchIfMissing env (Nhfs_file currDevice) (Nhfs_url currDevice) (
     fetchIfMissing env (Gapps_file currDevice) (Gapps_url currDevice) (
     fetchIfMissing env (Twrp_file currDevice) (Twrp_url currDevice) k))))"

text \<open>Lines 802-809 and 832-841: push and install of the extra file.\<close>

definition pushExtra :: "env \<Rightarrow> Device \<Rightarrow> run \<Rightarrow> run" where
  "pushExtra env currDevice k =
     (if Extra_file currDevice \<noteq> []
      then or_exit env (AdbPushFg (Extra_file currDevice) ''/sdcard'') ErrorAdb k
      else k)"

definition installExtra :: "env \<Rightarrow> Device \<Rightarrow> run \<Rightarrow> run" where
  "installExtra env currDevice k =
     (if Extra_file currDevice \<noteq> []
      then or_exit env (AdbShell (''twrp install /sdcard/'' @ Extra_file currDevice)) ErrorTWRP k
      else k)"

text \<open>
  Lines 851-873, "Install Gapps?": the yes/no menu hands the action the answer 0 (yes) or
  1 (no).
\<close>

definition gappsMenu :: "env \<Rightarrow> Device \<Rightarrow> run \<Rightarrow> run" where
  "gappsMenu env currDevice k =
     menu_Run env ''Install Gapps?'' [''yes'', ''no''] (\<lambda>i.
       if i = 0 then
         or_exit env (AdbShell (''twrp install /sdcard/'' @ Gapps_file currDevice)) ErrorTWRP k
       else k)"

text \<open>Lines 756-943.\<close>

definition install_multi :: "env \<Rightarrow> Device \<Rightarrow> run" where
  "install_multi env currDevice =
     waitForOpKey (
     or_exit env (FbFlashRecovery (Twrp_file currDevice)) ErrorTWRP (
     or_exit env (FbBoot (Twrp_file currDevice)) ErrorTWRP (
     waitForOpKey (
     time_Sleep 1000 (
     or_exit env (AdbShell ''twrp wipe dalvik'') ErrorTWRP (
     time_Sleep 1000 (
     or_exit env (AdbShell ''twrp wipe data'') ErrorTWRP (
     time_Sleep 1000 (
     or_exit env (AdbShell ''twrp wipe system'') ErrorTWRP (
     pushExtra env currDevice (
     or_exit env (AdbPushFg (Nhos_file currDevice) ''/sdcard'') ErrorAdb (
     or_exit env (AdbPushFg (Nhfs_file currDevice) ''/sdcard'') ErrorAdb (
     or_exit env (AdbPushFg (Gapps_file currDevice) ''/sdcard'') ErrorAdb (
     installExtra env currDevice (
     or_exit env (AdbShell (''twrp install /sdcard/'' @ Nhos_file currDevice)) ErrorTWRP (
     gappsMenu env currDevice (
     time_Sleep 10000 (
     or_exit env (AdbShell ''twrp wipe cache'') ErrorTWRP (
     time_Sleep 1000 (
     or_exit env (AdbShell ''twrp wipe dalvik'') ErrorTWRP (
     or_exit env (AdbReboot []) ErrorAdb (
     waitForOpKey (
     verifyAdbStatusOrAbort env (
     or_exit env (AdbReboot ''bootloader'') ErrorAdb (
     time_Sleep 30000 (
     or_exit env (FbBoot (Twrp_file currDevice)) ErrorTWRP (
     waitForOpKey (
     time_Sleep 20000 (
     or_exit env (AdbShell (''twrp install /sdcard/'' @ Nhfs_file currDevice)) ErrorTWRP (
     time_Sleep 30000 (
     or_exit env (AdbReboot []) ErrorAdb (
     exit Success))))))))))))))))))))))))))))))))"

text \<open>What follows the choice of the profile (lines 710-943).\<close>

definition procedure_multi :: "env \<Rightarrow> Device \<Rightarrow> run" where
  "procedure_multi env currDevice =
     waitForOpKey (
     unlockCheck env (
     staging_multi env currDevice (
     install_multi env currDevice)))"

definition main_multi ::
  "(Device list \<Rightarrow> string \<Rightarrow> Device) \<Rightarrow> Device list \<Rightarrow> env \<Rightarrow> outcome \<times> event list" where
  "main_multi lookup nhDevices env =
     startup env (
     verifyTools env (
     checkUsb env (
     identify_multi lookup nhDevices env (\<lambda>currDevice.
     procedure_multi env currDevice)))) []"

section \<open>Concrete environments\<close>

text \<open>
  \<open>coop\<close> is the environment in which everything goes well: the operator answers yes, the
  device is in the bootloader, unlocked, every file is present and every operation
  succeeds. The other environments differ from it in the answers named.
\<close>

definition coop :: env where
  "coop = \<lparr>version_flag = False, executable_err = None, setenv_err = None,
     stdin_line = (\<lambda>t. (''yes'', None)),
     stat_missing = (\<lambda>t file. False),
     download_fails = (\<lambda>t url. False),
     menu_pick = (\<lambda>t. Inr 0),
     adb_status = (\<lambda>t. (DeviceFound, None)),
     fb_status = (\<lambda>t. (DeviceFound, None)),
     fb_product = (\<lambda>t. (''QC_Reference_Phone'', None)),
     fb_unlocked = (\<lambda>t. (True, None)),
     op_err = (\<lambda>t c. None)\<rparr>"

definition env_decline :: env where
  "env_decline = coop\<lparr>stdin_line := (\<lambda>t. (''y'', None))\<rparr>"

section \<open>Symbolic execution\<close>

lemmas prim_defs =
  ask_def reader_ReadLine_def adb_Status_def fastboot_Status_def fastboot_GetProduct_def
  fastboot_Unlocked_def perform_def or_exit_def silent_def fastboot_Reboot_def time_Sleep_def
  waitForOpKey_def os_Stat_def remote_DownloadURL_def menu_Run_def exit_def panic_def

section \<open>Properties of the installers\<close>

text \<open>
  C7. Every answer to the prompt "Are you ready to install Nethunter? (yes/no)" other
  than the exact line \<^verbatim>\<open>yes\<close> ends the process with \<open>SuccessUserAbort\<close> (33), and the
  only call made before that exit is the reading of the answer: no adb or fastboot call
  is issued. This holds for the fixed-device and for the multi-profile installer. The
  prompt is reached when the version flag is not given and the start-up steps do not fail.
\<close>

theorem C7_decline_exits_without_device_call:
  assumes "\<not> version_flag env" and "executable_err env = None" and "setenv_err env = None"
    and "stdin_line env 0 = (line, None)" and "line \<noteq> ''yes''"
  shows "main_op5 env = (Exit SuccessUserAbort, [(ReadLine, False)])
    \<and> main_multi lookup nhDevices env = (Exit SuccessUserAbort, [(ReadLine, False)])
    \<and> SuccessUserAbort = 33"
  using assms
  by (auto simp add: main_op5_def main_multi_def startup_def prim_defs SuccessUserAbort_def)

theorem C7_decline_witness:
  "main_op5 env_decline = (Exit SuccessUserAbort, [(ReadLine, False)])
   \<and> main_multi findDeviceConfig [] env_decline = (Exit SuccessUserAbort, [(ReadLine, False)])"
  using C7_decline_exits_without_device_call [of env_decline "''y''" findDeviceConfig "[]"]
  by (simp add: env_decline_def coop_def)

end
